theory Spec2Isabelle
  imports Main
begin

section \<open>Python values and their text\<close>

text \<open>
  The values that travel through the client: \<^verbatim>\<open>None\<close>, booleans, integers, strings,
  lists and dictionaries with string keys (what \<^verbatim>\<open>json\<close> decoding yields, floating
  point left out). A dictionary is an association list in insertion order, its keys
  distinct; strings are sequences of code points below 256.
\<close>

datatype pyval =
    PNone
  | PBool bool
  | PInt int
  | PStr string
  | PList "pyval list"
  | PDict "(string \<times> pyval) list"

datatype error =
    TypeError
  | KeyError string
  | ClientResponseError nat string
  | ContentTypeError nat
  | JSONDecodeError
  | TransportError string

definition digit_char :: "nat \<Rightarrow> char" where
  "digit_char n = ''0123456789abcdef'' ! n"

fun str_nat :: "nat \<Rightarrow> string" where
  "str_nat n = (if n < 10 then [digit_char n] else str_nat (n div 10) @ [digit_char (n mod 10)])"

declare str_nat.simps [simp del]

definition str_int :: "int \<Rightarrow> string" where
  "str_int i = (if i < 0 then CHR ''-'' # str_nat (nat (- i)) else str_nat (nat i))"

text \<open>
  \<^verbatim>\<open>repr\<close> of a string: double quotes only when the text has a single quote and no
  double quote; the quote and the backslash are escaped, tab, newline and carriage
  return are written \<^verbatim>\<open>\t\<close>, \<^verbatim>\<open>\n\<close>, \<^verbatim>\<open>\r\<close>, and every other non-printable
  code point as \<^verbatim>\<open>\xhh\<close>.
\<close>

definition printable :: "char \<Rightarrow> bool" where
  "printable c = (let n = (of_char c :: nat) in
     32 \<le> n \<and> n < 127 \<or> 160 < n \<and> n \<noteq> 173)"

definition repr_char :: "char \<Rightarrow> char \<Rightarrow> string" where
  "repr_char q c =
     (if c = q \<or> c = CHR 0x5C then [CHR 0x5C, c]
      else if c = CHR 0x09 then [CHR 0x5C, CHR ''t'']
      else if c = CHR 0x0A then [CHR 0x5C, CHR ''n'']
      else if c = CHR 0x0D then [CHR 0x5C, CHR ''r'']
      else if printable c then [c]
      else [CHR 0x5C, CHR ''x'',
            digit_char ((of_char c :: nat) div 16), digit_char ((of_char c :: nat) mod 16)])"

definition repr_str :: "string \<Rightarrow> string" where
  "repr_str s =
     (let q = (if CHR 0x27 \<in> set s \<and> CHR 0x22 \<notin> set s then CHR 0x22 else CHR 0x27)
      in q # concat (map (repr_char q) s) @ [q])"

fun join :: "string \<Rightarrow> string list \<Rightarrow> string" where
  "join sep [] = []"
| "join sep [x] = x"
| "join sep (x # y # ys) = x @ sep @ join sep (y # ys)"

fun py_repr :: "pyval \<Rightarrow> string" where
  "py_repr PNone = ''None''"
| "py_repr (PBool b) = (if b then ''True'' else ''False'')"
| "py_repr (PInt i) = str_int i"
| "py_repr (PStr s) = repr_str s"
| "py_repr (PList xs) = ''['' @ join '', '' (map py_repr xs) @ '']''"
| "py_repr (PDict kvs) =
     ''{'' @ join '', '' (map (\<lambda>kv. repr_str (fst kv) @ '': '' @ py_repr (snd kv)) kvs) @ ''}''"

text \<open>What \<^verbatim>\<open>"%s" % v\<close> inserts: \<^verbatim>\<open>str(v)\<close>.\<close>

fun py_str :: "pyval \<Rightarrow> string" where
  "py_str (PStr s) = s"
| "py_str v = py_repr v"

text \<open>\<^verbatim>\<open>v[key]\<close> with a string key.\<close>

fun subscript :: "pyval \<Rightarrow> string \<Rightarrow> error + pyval" where
  "subscript (PDict kvs) k = (case map_of kvs k of None \<Rightarrow> Inl (KeyError k) | Some v \<Rightarrow> Inr v)"
| "subscript v k = Inl TypeError"

section \<open>The HTTP session\<close>

text \<open>
  The caller-owned \<^verbatim>\<open>aiohttp.ClientSession\<close>. A request that the session takes
  either raises a connection-level exception or yields a response with a status code,
  a reason phrase, a content type and a body. Of the content type only one thing
  matters, whether aiohttp takes it for a JSON type. The body is either a JSON
  document, given by the value it decodes to, or other text. The session keeps two
  lists: \<open>sent\<close>, every request the client asked it to send, and \<open>delivered\<close>,
  those of them that the server answered. Its answer may depend on the requests it was
  asked to send before.
\<close>

type_synonym pydict = "(string \<times> pyval) list"
type_synonym strdict = "(string \<times> string) list"

record http_request =
  req_method :: string
  req_url :: string
  req_headers :: strdict
  req_data :: "strdict option"
  req_params :: pydict

datatype body = JsonBody pyval | RawBody string

datatype mimetype = JsonType | OtherType string

datatype reply = Response nat string mimetype body | Raised string

record websession =
  sent :: "http_request list"
  delivered :: "http_request list"
  respond :: "http_request list \<Rightarrow> http_request \<Rightarrow> reply"

text \<open>
  The session builds the query string before it connects (yarl, version 1.6 or later):
  a value is a string or an integer that is not a boolean, or a list of such values;
  anything else, \<^verbatim>\<open>False\<close> and \<^verbatim>\<open>None\<close> included, raises \<^verbatim>\<open>TypeError\<close>
  and nothing goes out.
\<close>

fun query_var :: "pyval \<Rightarrow> bool" where
  "query_var (PStr s) = True"
| "query_var (PInt i) = True"
| "query_var v = False"

fun query_ok :: "pyval \<Rightarrow> bool" where
  "query_ok (PList xs) = list_all query_var xs"
| "query_ok v = query_var v"

text \<open>
  \<^verbatim>\<open>r.json()\<close>: a content type that is not a JSON type raises
  \<^verbatim>\<open>ContentTypeError\<close>, which holds the status; a body that is empty once the
  ASCII white space around it is stripped gives \<^verbatim>\<open>None\<close>; a JSON document gives its
  value; other text raises \<^verbatim>\<open>JSONDecodeError\<close>.
\<close>

definition blank :: "string \<Rightarrow> bool" where
  "blank t = list_all (\<lambda>c. c \<in> set [CHR '' '', CHR 0x09, CHR 0x0A, CHR 0x0B, CHR 0x0C, CHR 0x0D]) t"

definition json :: "nat \<Rightarrow> mimetype \<Rightarrow> body \<Rightarrow> error + pyval" where
  "json status mt content =
     (case mt of
        OtherType t \<Rightarrow> Inl (ContentTypeError status)
      | JsonType \<Rightarrow>
          (case content of
             JsonBody j \<Rightarrow> Inr j
           | RawBody t \<Rightarrow> if blank t then Inr PNone else Inl JSONDecodeError))"

section \<open>The client\<close>

record client =
  cl_config :: "strdict option"
  cl_token :: pyval
  cl_username :: string
  cl_password :: string
  cl_websession :: websession

definition WHISTLE_CONST :: strdict where
  "WHISTLE_CONST =
     [(''proto'', ''https''), (''remote_host'', ''app.whistle.com''), (''endpoint'', ''api'')]"

text \<open>\<^verbatim>\<open>config[key]\<close>: \<^verbatim>\<open>None\<close> is not subscriptable, a missing key raises.\<close>

definition config_get :: "strdict option \<Rightarrow> string \<Rightarrow> error + string" where
  "config_get config k =
     (case config of
        None \<Rightarrow> Inl TypeError
      | Some d \<Rightarrow> (case map_of d k of None \<Rightarrow> Inl (KeyError k) | Some v \<Rightarrow> Inr v))"

definition url :: "strdict option \<Rightarrow> string \<Rightarrow> error + string" where
  "url config resource =
     (case config_get config ''proto'' of Inl e \<Rightarrow> Inl e | Inr proto \<Rightarrow>
       (case config_get config ''remote_host'' of Inl e \<Rightarrow> Inl e | Inr host \<Rightarrow>
         (case config_get config ''endpoint'' of Inl e \<Rightarrow> Inl e | Inr endpoint \<Rightarrow>
            Inr (proto @ ''://'' @ host @ ''/'' @ endpoint @ ''/'' @ resource))))"

definition headers :: "strdict option \<Rightarrow> pyval \<Rightarrow> error + strdict" where
  "headers config token =
     (case config_get config ''remote_host'' of Inl e \<Rightarrow> Inl e | Inr host \<Rightarrow>
        Inr [(''Host'', host),
             (''Content-Type'', ''application/json''),
             (''Connection'', ''keep-alive''),
             (''Accept'', ''application/vnd.whistle.com.v4+json''),
             (''Accept-Language'', ''en-us''),
             (''Accept-Encoding'', ''br, gzip, deflate''),
             (''User-Agent'', ''Winston/2.5.3 (iPhone; iOS 12.0.1; Build:1276; Scale/2.0)''),
             (''Authorization'', ''Bearer '' @ py_str token)])"

text \<open>
  \<^verbatim>\<open>request\<close>: the headers and the parameters are normalised first, the URL is
  built while the arguments of the session call are evaluated (so a failure there
  sends nothing), then the session sends. \<^verbatim>\<open>raise_for_status\<close> raises aiohttp's
  \<^verbatim>\<open>ClientResponseError\<close>, which holds the status and the reason phrase, when the
  status is 400 or above; otherwise \<^verbatim>\<open>r.json()\<close> decodes the body. A request whose
  parameters the session cannot write into the query string was handed over but is
  not delivered. The line that prints the parameters to the standard output is left
  out.
\<close>

definition request ::
  "client \<Rightarrow> strdict option \<Rightarrow> string \<Rightarrow> string \<Rightarrow> strdict option \<Rightarrow> strdict option
     \<Rightarrow> pydict option \<Rightarrow> (error + pyval) \<times> client" where
  "request self config meth resource hdrs data params =
     (let hdrs1 = (case hdrs of None \<Rightarrow> [] | Some h \<Rightarrow> if h = [] then [] else h);
          params1 = (case params of
                       None \<Rightarrow> []
                     | Some p \<Rightarrow> if p = [] then [] else filter (\<lambda>(k, v). v \<noteq> PNone) p)
      in (case url config resource of
            Inl e \<Rightarrow> (Inl e, self)
          | Inr u \<Rightarrow>
              (let ws = cl_websession self;
                   rq = \<lparr>req_method = meth, req_url = u, req_headers = hdrs1,
                         req_data = data, req_params = params1\<rparr>;
                   self1 = self\<lparr>cl_websession := ws\<lparr>sent := sent ws @ [rq]\<rparr>\<rparr>;
                   self2 = self\<lparr>cl_websession :=
                             ws\<lparr>sent := sent ws @ [rq], delivered := delivered ws @ [rq]\<rparr>\<rparr>
               in if \<not> list_all (\<lambda>(k, v). query_ok v) params1 then (Inl TypeError, self1)
                  else (case respond ws (sent ws) rq of
                          Raised x \<Rightarrow> (Inl (TransportError x), self1)
                        | Response status reason mt content \<Rightarrow>
                            if 400 \<le> status
                            then (Inl (ClientResponseError status reason), self2)
                            else (json status mt content, self2)))))"

definition get_resource ::
  "client \<Rightarrow> strdict option \<Rightarrow> pyval \<Rightarrow> string \<Rightarrow> pydict option \<Rightarrow> (error + pyval) \<times> client" where
  "get_resource self config token resource params =
     (case headers config token of
        Inl e \<Rightarrow> (Inl e, self)
      | Inr h \<Rightarrow> request self config ''get'' resource (Some h) None params)"

definition login :: "client \<Rightarrow> strdict option \<Rightarrow> (error + pyval) \<times> client" where
  "login self config =
     (case request self config ''post'' ''login'' None
             (Some [(''email'', cl_username self), (''password'', cl_password self)]) None of
        (Inl e, self1) \<Rightarrow> (Inl e, self1)
      | (Inr j, self1) \<Rightarrow> (subscript j ''auth_token'', self1))"

definition get_pets :: "client \<Rightarrow> (error + pyval) \<times> client" where
  "get_pets self = get_resource self (cl_config self) (cl_token self) ''pets'' None"

definition get_owners :: "client \<Rightarrow> pyval \<Rightarrow> (error + pyval) \<times> client" where
  "get_owners self pet_id =
     get_resource self (cl_config self) (cl_token self) (''pets/'' @ py_str pet_id @ ''/owners'') None"

definition get_places :: "client \<Rightarrow> (error + pyval) \<times> client" where
  "get_places self = get_resource self (cl_config self) (cl_token self) ''places'' None"

definition get_stats :: "client \<Rightarrow> pyval \<Rightarrow> (error + pyval) \<times> client" where
  "get_stats self pet_id =
     get_resource self (cl_config self) (cl_token self) (''pets/'' @ py_str pet_id @ ''/stats'') None"

definition get_timeline :: "client \<Rightarrow> pyval \<Rightarrow> (error + pyval) \<times> client" where
  "get_timeline self pet_id =
     get_resource self (cl_config self) (cl_token self)
       (''pets/'' @ py_str pet_id @ ''/timelines/location'') None"

section \<open>Dates\<close>

text \<open>
  A naive \<^verbatim>\<open>datetime.datetime\<close>. The environment gives the local clock reading of
  \<^verbatim>\<open>datetime.now()\<close> and the offset of the local time zone from UTC, in seconds east
  of Greenwich, at a POSIX timestamp. \<^verbatim>\<open>datetime.fromtimestamp(t)\<close> is the local civil
  time at \<open>t\<close>: the proleptic Gregorian date of the day number, and the time of day.
\<close>

record datetime =
  dt_year :: int
  dt_month :: int
  dt_day :: int
  dt_hour :: int
  dt_minute :: int
  dt_second :: int

record env =
  now :: datetime
  utcoffset :: "int \<Rightarrow> int"

definition civil_from_days :: "int \<Rightarrow> int \<times> int \<times> int" where
  "civil_from_days z0 =
     (let z = z0 + 719468;
          era = z div 146097;
          doe = z - era * 146097;
          yoe = (doe - doe div 1460 + doe div 36524 - doe div 146096) div 365;
          doy = doe - (365 * yoe + yoe div 4 - yoe div 100);
          mp = (5 * doy + 2) div 153;
          d = doy - (153 * mp + 2) div 5 + 1;
          m = (if mp < 10 then mp + 3 else mp - 9);
          y = yoe + era * 400
      in (if m \<le> 2 then y + 1 else y, m, d))"

definition fromtimestamp :: "env \<Rightarrow> int \<Rightarrow> datetime" where
  "fromtimestamp ev t =
     (let local = t + utcoffset ev t;
          secs = local mod 86400
      in case civil_from_days (local div 86400) of
           (y, m, d) \<Rightarrow>
             \<lparr>dt_year = y, dt_month = m, dt_day = d,
              dt_hour = secs div 3600, dt_minute = (secs mod 3600) div 60,
              dt_second = secs mod 60\<rparr>)"

definition zfill :: "nat \<Rightarrow> string \<Rightarrow> string" where
  "zfill w s = replicate (w - length s) (CHR ''0'') @ s"

text \<open>
  \<^verbatim>\<open>strftime\<close>, as CPython on glibc computes it: a directive is a percent sign and
  a letter; the year is written with the digits it has, without padding, month, day,
  hour, minute and second with two digits; other text is copied.
\<close>

definition directive :: "datetime \<Rightarrow> char \<Rightarrow> string" where
  "directive dt c =
     (if c = CHR ''Y'' then str_int (dt_year dt)
      else if c = CHR ''m'' then zfill 2 (str_int (dt_month dt))
      else if c = CHR ''d'' then zfill 2 (str_int (dt_day dt))
      else if c = CHR ''H'' then zfill 2 (str_int (dt_hour dt))
      else if c = CHR ''M'' then zfill 2 (str_int (dt_minute dt))
      else if c = CHR ''S'' then zfill 2 (str_int (dt_second dt))
      else if c = CHR ''%'' then ''%''
      else [CHR ''%'', c])"

fun strftime :: "datetime \<Rightarrow> string \<Rightarrow> string" where
  "strftime dt [] = []"
| "strftime dt [c] = [c]"
| "strftime dt (c # d # cs) =
     (if c = CHR ''%'' then directive dt d @ strftime dt cs else c # strftime dt (d # cs))"

definition DATEFORMAT_YYYYMMDD :: string where
  "DATEFORMAT_YYYYMMDD = ''%Y-%m-%d''"

definition format_date :: "datetime option \<Rightarrow> pyval" where
  "format_date d =
     (case d of None \<Rightarrow> PNone | Some dt \<Rightarrow> PStr (strftime dt DATEFORMAT_YYYYMMDD))"

text \<open>
  \<^verbatim>\<open>get_dailies\<close>: a \<^verbatim>\<open>datetime\<close> is always true, so each test of a date asks
  whether it was given.
\<close>

definition get_dailies ::
  "env \<Rightarrow> client \<Rightarrow> pyval \<Rightarrow> datetime option \<Rightarrow> datetime option \<Rightarrow> (error + pyval) \<times> client" where
  "get_dailies ev self pet_id start_date end_date =
     (case (if start_date \<noteq> None \<and> end_date = None then (start_date, Some (now ev))
            else if end_date \<noteq> None \<and> start_date = None
              then (Some (fromtimestamp ev 0), end_date)
            else (start_date, end_date)) of
        (start_date1, end_date1) \<Rightarrow>
          get_resource self (cl_config self) (cl_token self)
            (''pets/'' @ py_str pet_id @ ''/dailies'')
            (Some [(''start_date'', format_date start_date1),
                   (''end_date'', format_date end_date1)]))"

definition get_dailies_day :: "client \<Rightarrow> pyval \<Rightarrow> pyval \<Rightarrow> (error + pyval) \<times> client" where
  "get_dailies_day self pet_id day_id =
     get_resource self (cl_config self) (cl_token self)
       (''pets/'' @ py_str pet_id @ ''/dailies/'' @ py_str day_id) None"

definition get_achievements :: "client \<Rightarrow> pyval \<Rightarrow> (error + pyval) \<times> client" where
  "get_achievements self pet_id =
     get_resource self (cl_config self) (cl_token self)
       (''pets/'' @ py_str pet_id @ ''/achievements'') None"

definition async_init :: "client \<Rightarrow> strdict option \<Rightarrow> (error + unit) \<times> client" where
  "async_init self whistle_const =
     (let self1 = self\<lparr>cl_config := whistle_const\<rparr>
      in if cl_token self1 = PNone
         then (case login self1 (cl_config self1) of
                 (Inl e, self2) \<Rightarrow> (Inl e, self2)
               | (Inr t, self2) \<Rightarrow> (Inr (), self2\<lparr>cl_token := t\<rparr>))
         else (Inr (), self1))"

definition init :: "string \<Rightarrow> string \<Rightarrow> websession \<Rightarrow> client" where
  "init email password ws =
     \<lparr>cl_config = None, cl_token = PNone, cl_username = email, cl_password = password,
      cl_websession = ws\<rparr>"

text \<open>The eight resource-fetching methods, as one type of invocations.\<close>

datatype call =
    GetPets
  | GetOwners pyval
  | GetPlaces
  | GetStats pyval
  | GetTimeline pyval
  | GetDailies pyval "datetime option" "datetime option"
  | GetDailiesDay pyval pyval
  | GetAchievements pyval

fun invoke :: "env \<Rightarrow> client \<Rightarrow> call \<Rightarrow> (error + pyval) \<times> client" where
  "invoke ev self GetPets = get_pets self"
| "invoke ev self (GetOwners pet_id) = get_owners self pet_id"
| "invoke ev self GetPlaces = get_places self"
| "invoke ev self (GetStats pet_id) = get_stats self pet_id"
| "invoke ev self (GetTimeline pet_id) = get_timeline self pet_id"
| "invoke ev self (GetDailies pet_id s e) = get_dailies ev self pet_id s e"
| "invoke ev self (GetDailiesDay pet_id day_id) = get_dailies_day self pet_id day_id"
| "invoke ev self (GetAchievements pet_id) = get_achievements self pet_id"

section \<open>Sample sessions\<close>

text \<open>
  A server that accepts the login and answers every other request with one pet, and a
  server that refuses the login. The sample environment is a machine five hours west
  of Greenwich, at 03:04:05 on 2 January 2020.
\<close>

definition accepting_session :: websession where
  "accepting_session =
     \<lparr>sent = [], delivered = [],
      respond = (\<lambda>earlier rq.
        if req_method rq = ''post''
        then Response 200 ''OK'' JsonType (JsonBody (PDict [(''auth_token'', PStr ''tok123'')]))
        else Response 200 ''OK'' JsonType
               (JsonBody (PList [PDict [(''id'', PInt 1), (''name'', PStr ''Rex'')]])))\<rparr>"

definition rejecting_session :: websession where
  "rejecting_session =
     \<lparr>sent = [], delivered = [],
      respond = (\<lambda>earlier rq.
        if req_method rq = ''post''
        then Response 401 ''Unauthorized'' (OtherType ''text/plain'') (RawBody ''denied'')
        else Response 200 ''OK'' JsonType (JsonBody (PList [])))\<rparr>"

definition fresh_client :: client where
  "fresh_client = init ''a@b.com'' ''pw'' accepting_session"

definition refused_client :: client where
  "refused_client = init ''a@b.com'' ''pw'' rejecting_session"

text \<open>
  Four servers that answer every request the same way: 404 with a text body, 404 with
  a JSON body, 300 with a JSON body, and 200 with a JSON document served as plain
  text.
\<close>

definition not_found_text :: websession where
  "not_found_text =
     \<lparr>sent = [], delivered = [],
      respond = (\<lambda>earlier rq. Response 404 ''Not Found'' (OtherType ''text/plain'') (RawBody ''no such pet''))\<rparr>"

definition not_found_json :: websession where
  "not_found_json =
     \<lparr>sent = [], delivered = [],
      respond = (\<lambda>earlier rq.
        Response 404 ''Not Found'' JsonType (JsonBody (PDict [(''error'', PStr ''gone'')])))\<rparr>"

definition multiple_choices :: websession where
  "multiple_choices =
     \<lparr>sent = [], delivered = [],
      respond = (\<lambda>earlier rq.
        Response 300 ''Multiple Choices'' JsonType (JsonBody (PList [PStr ''a'', PStr ''b''])))\<rparr>"

definition mislabelled :: websession where
  "mislabelled =
     \<lparr>sent = [], delivered = [],
      respond = (\<lambda>earlier rq.
        Response 200 ''OK'' (OtherType ''text/plain'') (JsonBody (PList [PStr ''a''])))\<rparr>"

definition ready_client :: client where
  "ready_client = snd (async_init fresh_client (Some WHISTLE_CONST))"

definition stranded_client :: client where
  "stranded_client = snd (async_init refused_client (Some WHISTLE_CONST))"

text \<open>A client whose initialisation was given a configuration with the scheme only.\<close>

definition partial_client :: client where
  "partial_client = snd (async_init refused_client (Some [(''proto'', ''https'')]))"

definition falsy_params :: pydict where
  "falsy_params = [(''a'', PStr ''''), (''b'', PInt 0), (''c'', PBool False), (''d'', PNone)]"

definition plain_params :: pydict where
  "plain_params = [(''a'', PStr ''''), (''b'', PInt 0), (''d'', PNone)]"

definition second_of_january :: datetime where
  "second_of_january =
     \<lparr>dt_year = 2020, dt_month = 1, dt_day = 2, dt_hour = 3, dt_minute = 4, dt_second = 5\<rparr>"

definition west_env :: env where
  "west_env = \<lparr>now = second_of_january, utcoffset = (\<lambda>t. - 18000)\<rparr>"

section \<open>What a request sends and returns\<close>

lemma request_url_error:
  "url config resource = Inl e \<Longrightarrow>
   request self config meth resource hdrs data params = (Inl e, self)"
  by (simp add: request_def)

lemma request_sent:
  assumes "url config resource = Inr u"
  shows "sent (cl_websession (snd (request self config meth resource hdrs data params))) =
         sent (cl_websession self) @
           [\<lparr>req_method = meth, req_url = u,
             req_headers = (case hdrs of None \<Rightarrow> [] | Some h \<Rightarrow> h),
             req_data = data,
             req_params =
               (case params of None \<Rightarrow> [] | Some p \<Rightarrow> filter (\<lambda>(k, v). v \<noteq> PNone) p)\<rparr>]"
  using assms
  by (auto simp: request_def Let_def split: reply.splits option.splits)

lemma request_result:
  assumes "url config resource = Inr u"
  shows "fst (request self config meth resource hdrs data params) =
     (if \<not> list_all (\<lambda>(k, v). query_ok v)
            (case params of None \<Rightarrow> [] | Some p \<Rightarrow> filter (\<lambda>(k, v). v \<noteq> PNone) p)
      then Inl TypeError
      else (case respond (cl_websession self) (sent (cl_websession self))
             \<lparr>req_method = meth, req_url = u,
              req_headers = (case hdrs of None \<Rightarrow> [] | Some h \<Rightarrow> h),
              req_data = data,
              req_params =
                (case params of None \<Rightarrow> [] | Some p \<Rightarrow> filter (\<lambda>(k, v). v \<noteq> PNone) p)\<rparr> of
        Raised x \<Rightarrow> Inl (TransportError x)
      | Response status reason mt content \<Rightarrow>
          if 400 \<le> status then Inl (ClientResponseError status reason)
          else json status mt content))"
  using assms
  by (auto simp: request_def Let_def split: reply.splits option.splits)

lemma request_delivered:
  assumes "url config resource = Inr u"
  shows "delivered (cl_websession (snd (request self config meth resource hdrs data params))) =
     (if \<not> list_all (\<lambda>(k, v). query_ok v)
            (case params of None \<Rightarrow> [] | Some p \<Rightarrow> filter (\<lambda>(k, v). v \<noteq> PNone) p)
      then delivered (cl_websession self)
      else (case respond (cl_websession self) (sent (cl_websession self))
             \<lparr>req_method = meth, req_url = u,
              req_headers = (case hdrs of None \<Rightarrow> [] | Some h \<Rightarrow> h),
              req_data = data,
              req_params =
                (case params of None \<Rightarrow> [] | Some p \<Rightarrow> filter (\<lambda>(k, v). v \<noteq> PNone) p)\<rparr> of
        Raised x \<Rightarrow> delivered (cl_websession self)
      | Response status reason mt content \<Rightarrow>
          delivered (cl_websession self) @
            [\<lparr>req_method = meth, req_url = u,
              req_headers = (case hdrs of None \<Rightarrow> [] | Some h \<Rightarrow> h),
              req_data = data,
              req_params =
                (case params of None \<Rightarrow> [] | Some p \<Rightarrow> filter (\<lambda>(k, v). v \<noteq> PNone) p)\<rparr>]))"
  using assms
  by (auto simp: request_def Let_def split: reply.splits option.splits)

lemma request_keeps:
  "cl_config (snd (request self config meth resource hdrs data params)) = cl_config self"
  "cl_token (snd (request self config meth resource hdrs data params)) = cl_token self"
  "cl_username (snd (request self config meth resource hdrs data params)) = cl_username self"
  "cl_password (snd (request self config meth resource hdrs data params)) = cl_password self"
  "respond (cl_websession (snd (request self config meth resource hdrs data params))) =
     respond (cl_websession self)"
  by (auto simp: request_def Let_def split: sum.splits reply.splits option.splits)

lemma url_of_config:
  assumes "map_of cfg ''proto'' = Some p" and "map_of cfg ''remote_host'' = Some h"
    and "map_of cfg ''endpoint'' = Some e"
  shows "url (Some cfg) resource = Inr (p @ ''://'' @ h @ ''/'' @ e @ ''/'' @ resource)"
  using assms by (simp add: url_def config_get_def)

lemma url_default:
  "url (Some WHISTLE_CONST) resource = Inr (''https://app.whistle.com/api/'' @ resource)"
  by (simp add: url_def config_get_def WHISTLE_CONST_def)

section \<open>URL construction\<close>

text \<open>
  C7. For every configuration holding a scheme, a host and an API path segment, and
  every resource string, the URL is the text \<open>scheme://host/path/resource\<close>, with
  nothing escaped or changed, and that is the URL of the request handed to the session.
\<close>

theorem url_exact:
  assumes "map_of cfg ''proto'' = Some p" and "map_of cfg ''remote_host'' = Some h"
    and "map_of cfg ''endpoint'' = Some e"
  shows "url (Some cfg) resource = Inr (p @ ''://'' @ h @ ''/'' @ e @ ''/'' @ resource) \<and>
         req_url (last (sent (cl_websession (snd
             (request self (Some cfg) meth resource hdrs data params)))))
           = p @ ''://'' @ h @ ''/'' @ e @ ''/'' @ resource"
proof -
  have u: "url (Some cfg) resource = Inr (p @ ''://'' @ h @ ''/'' @ e @ ''/'' @ resource)"
    using assms by (rule url_of_config)
  show ?thesis
    by (simp add: u request_sent [OF u])
qed

theorem url_exact_witness:
  "map_of WHISTLE_CONST ''proto'' = Some ''https'' \<and>
   map_of WHISTLE_CONST ''remote_host'' = Some ''app.whistle.com'' \<and>
   map_of WHISTLE_CONST ''endpoint'' = Some ''api'' \<and>
   url (Some WHISTLE_CONST) ''pets/7/stats'' = Inr ''https://app.whistle.com/api/pets/7/stats'' \<and>
   req_url (last (sent (cl_websession (snd
       (request fresh_client (Some WHISTLE_CONST) ''get'' ''pets/7/stats'' None None None)))))
     = ''https://app.whistle.com/api/pets/7/stats''"
proof -
  have h1: "map_of WHISTLE_CONST ''proto'' = Some ''https''"
    and h2: "map_of WHISTLE_CONST ''remote_host'' = Some ''app.whistle.com''"
    and h3: "map_of WHISTLE_CONST ''endpoint'' = Some ''api''"
    by (simp_all add: WHISTLE_CONST_def)
  from url_exact [OF h1 h2 h3, of "''pets/7/stats''" fresh_client "''get''" None None None]
  show ?thesis using h1 h2 h3 by simp
qed

section \<open>Query parameters and headers of a request\<close>

text \<open>
  C4. The parameters of the request handed to the session are exactly the pairs of the
  given mapping whose value is not \<^verbatim>\<open>None\<close>, each with its value as given; with no
  parameters given the request has none, and with no headers given it has none.
\<close>

theorem request_drops_none_params:
  assumes "url config resource = Inr u"
  shows "(\<forall>k v. (k, v) \<in> set (req_params (last (sent (cl_websession (snd
             (request self config meth resource hdrs data params))))))
           \<longleftrightarrow> (\<exists>ps. params = Some ps \<and> (k, v) \<in> set ps \<and> v \<noteq> PNone)) \<and>
         (params = None \<longrightarrow> req_params (last (sent (cl_websession (snd
             (request self config meth resource hdrs data params))))) = []) \<and>
         (hdrs = None \<longrightarrow> req_headers (last (sent (cl_websession (snd
             (request self config meth resource hdrs data params))))) = [])"
  by (auto simp: request_sent [OF assms] split: option.splits)

theorem request_drops_none_params_witness:
  "url (Some WHISTLE_CONST) ''pets/7/dailies'' = Inr ''https://app.whistle.com/api/pets/7/dailies'' \<and>
   (''start_date'', PNone) \<notin> set (req_params (last (sent (cl_websession (snd
       (request fresh_client (Some WHISTLE_CONST) ''get'' ''pets/7/dailies'' None None
          (Some [(''start_date'', PNone), (''end_date'', PStr ''2020-01-02'')]))))))) \<and>
   (''end_date'', PStr ''2020-01-02'') \<in> set (req_params (last (sent (cl_websession (snd
       (request fresh_client (Some WHISTLE_CONST) ''get'' ''pets/7/dailies'' None None
          (Some [(''start_date'', PNone), (''end_date'', PStr ''2020-01-02'')]))))))) \<and>
   req_headers (last (sent (cl_websession (snd
       (request fresh_client (Some WHISTLE_CONST) ''get'' ''pets/7/dailies'' None None
          (Some [(''start_date'', PNone), (''end_date'', PStr ''2020-01-02'')])))))) = [] \<and>
   req_params (last (sent (cl_websession (snd
       (request fresh_client (Some WHISTLE_CONST) ''get'' ''pets/7/dailies'' None None None))))) = []"
proof -
  have u: "url (Some WHISTLE_CONST) ''pets/7/dailies''
             = Inr ''https://app.whistle.com/api/pets/7/dailies''"
    by (simp add: url_default)
  note given = request_drops_none_params [OF u, of fresh_client "''get''" None None
      "Some [(''start_date'', PNone), (''end_date'', PStr ''2020-01-02'')]"]
  note absent = request_drops_none_params [OF u, of fresh_client "''get''" None None None]
  from given absent u show ?thesis by simp
qed

lemma filter_query_ok:
  "list_all (\<lambda>(k, v). v = PNone \<or> query_ok v) ps \<Longrightarrow>
   list_all (\<lambda>(k, v). query_ok v) (filter (\<lambda>(k, v). v \<noteq> PNone) ps)"
  by (auto simp: list_all_iff)

lemma filter_query_bad:
  "(k, PBool b) \<in> set ps \<Longrightarrow>
   \<not> list_all (\<lambda>(k, v). query_ok v) (filter (\<lambda>(k, v). v \<noteq> PNone) ps)"
  by (auto simp: list_all_iff intro!: exI [of _ k] exI [of _ "PBool b"])

text \<open>
  C10, as the specification states it, fails for \<^verbatim>\<open>False\<close>, one of the values it
  names: the filter keeps the pair, but the session refuses a boolean parameter, the
  call fails with \<^verbatim>\<open>TypeError\<close> and no request is delivered.
\<close>

theorem request_refuses_false_param:
  "(''c'', PBool False) \<in> set falsy_params \<and>
   fst (request fresh_client (Some WHISTLE_CONST) ''get'' ''pets'' None None
          (Some falsy_params)) = Inl TypeError \<and>
   delivered (cl_websession (snd
       (request fresh_client (Some WHISTLE_CONST) ''get'' ''pets'' None None
          (Some falsy_params)))) = []"
  by (simp add: request_result [OF url_default] request_delivered [OF url_default]
      falsy_params_def fresh_client_def init_def accepting_session_def)

text \<open>
  C10, amended. Only \<^verbatim>\<open>None\<close> is dropped: a pair whose value is anything else, the
  empty string, zero and \<^verbatim>\<open>False\<close> among them, is among the parameters of the
  request handed to the session, with that value. When the value is a string or an
  integer, the session can write every parameter that is left and the server answers,
  the pair is among the parameters of the delivered request. When the value is a
  boolean the call fails with \<^verbatim>\<open>TypeError\<close> and nothing is delivered.
\<close>

theorem request_keeps_falsy_params:
  assumes "url config resource = Inr u" and "(k, v) \<in> set ps" and "v \<noteq> PNone"
  shows "(k, v) \<in> set (req_params (last (sent (cl_websession (snd
           (request self config meth resource hdrs data (Some ps))))))) \<and>
         (query_var v \<and> list_all (\<lambda>(k, v). v = PNone \<or> query_ok v) ps \<and>
          (\<exists>status reason mt content.
             respond (cl_websession self) (sent (cl_websession self))
               (last (sent (cl_websession (snd
                  (request self config meth resource hdrs data (Some ps))))))
             = Response status reason mt content)
          \<longrightarrow> (k, v) \<in> set (req_params (last (delivered (cl_websession (snd
                  (request self config meth resource hdrs data (Some ps)))))))) \<and>
         ((\<exists>b. v = PBool b) \<longrightarrow>
            fst (request self config meth resource hdrs data (Some ps)) = Inl TypeError \<and>
            delivered (cl_websession (snd
               (request self config meth resource hdrs data (Some ps))))
              = delivered (cl_websession self))"
proof (intro conjI impI)
  show "(k, v) \<in> set (req_params (last (sent (cl_websession (snd
           (request self config meth resource hdrs data (Some ps)))))))"
    using assms(2,3) by (auto simp: request_sent [OF assms(1)])
next
  assume a: "query_var v \<and> list_all (\<lambda>(k, v). v = PNone \<or> query_ok v) ps \<and>
          (\<exists>status reason mt content.
             respond (cl_websession self) (sent (cl_websession self))
               (last (sent (cl_websession (snd
                  (request self config meth resource hdrs data (Some ps))))))
             = Response status reason mt content)"
  then have ok: "list_all (\<lambda>(k, v). query_ok v) (filter (\<lambda>(k, v). v \<noteq> PNone) ps)"
    by (simp add: filter_query_ok)
  from a obtain status reason mt content where
    "respond (cl_websession self) (sent (cl_websession self))
       \<lparr>req_method = meth, req_url = u,
        req_headers = (case hdrs of None \<Rightarrow> [] | Some h \<Rightarrow> h),
        req_data = data,
        req_params = filter (\<lambda>(k, v). v \<noteq> PNone) ps\<rparr>
     = Response status reason mt content"
    by (auto simp: request_sent [OF assms(1)])
  then show "(k, v) \<in> set (req_params (last (delivered (cl_websession (snd
                  (request self config meth resource hdrs data (Some ps)))))))"
    using assms(2,3) ok by (simp add: request_delivered [OF assms(1)])
next
  assume "\<exists>b. v = PBool b"
  then obtain b where "(k, PBool b) \<in> set ps" using assms(2) by auto
  then have bad: "\<not> list_all (\<lambda>(k, v). query_ok v) (filter (\<lambda>(k, v). v \<noteq> PNone) ps)"
    by (rule filter_query_bad)
  show "fst (request self config meth resource hdrs data (Some ps)) = Inl TypeError"
    using bad by (simp add: request_result [OF assms(1)])
  show "delivered (cl_websession (snd
               (request self config meth resource hdrs data (Some ps))))
              = delivered (cl_websession self)"
    using bad by (simp add: request_delivered [OF assms(1)])
qed

theorem request_keeps_falsy_params_witness:
  "url (Some WHISTLE_CONST) ''pets'' = Inr ''https://app.whistle.com/api/pets'' \<and>
   (''a'', PStr '''') \<in> set plain_params \<and> PStr '''' \<noteq> PNone \<and>
   (''b'', PInt 0) \<in> set plain_params \<and> PInt 0 \<noteq> PNone \<and>
   query_var (PStr '''') \<and> query_var (PInt 0) \<and>
   list_all (\<lambda>(k, v). v = PNone \<or> query_ok v) plain_params \<and>
   respond (cl_websession fresh_client) (sent (cl_websession fresh_client))
       (last (sent (cl_websession (snd
          (request fresh_client (Some WHISTLE_CONST) ''get'' ''pets'' None None
             (Some plain_params))))))
     = Response 200 ''OK'' JsonType
         (JsonBody (PList [PDict [(''id'', PInt 1), (''name'', PStr ''Rex'')]])) \<and>
   (''a'', PStr '''') \<in> set (req_params (last (delivered (cl_websession (snd
       (request fresh_client (Some WHISTLE_CONST) ''get'' ''pets'' None None
          (Some plain_params))))))) \<and>
   (''b'', PInt 0) \<in> set (req_params (last (delivered (cl_websession (snd
       (request fresh_client (Some WHISTLE_CONST) ''get'' ''pets'' None None
          (Some plain_params))))))) \<and>
   (''c'', PBool False) \<in> set falsy_params \<and> PBool False \<noteq> PNone \<and>
   (''c'', PBool False) \<in> set (req_params (last (sent (cl_websession (snd
       (request fresh_client (Some WHISTLE_CONST) ''get'' ''pets'' None None
          (Some falsy_params))))))) \<and>
   fst (request fresh_client (Some WHISTLE_CONST) ''get'' ''pets'' None None
          (Some falsy_params)) = Inl TypeError \<and>
   delivered (cl_websession (snd
       (request fresh_client (Some WHISTLE_CONST) ''get'' ''pets'' None None
          (Some falsy_params)))) = delivered (cl_websession fresh_client)"
proof -
  have u: "url (Some WHISTLE_CONST) ''pets'' = Inr ''https://app.whistle.com/api/pets''"
    by (simp add: url_default)
  have a: "(''a'', PStr '''') \<in> set plain_params"
    and b: "(''b'', PInt 0) \<in> set plain_params"
    and c: "(''c'', PBool False) \<in> set falsy_params"
    by (simp_all add: plain_params_def falsy_params_def)
  have na: "PStr '''' \<noteq> PNone" and nb: "PInt 0 \<noteq> PNone" and nc: "PBool False \<noteq> PNone"
    by simp_all
  have q: "query_var (PStr '''')" "query_var (PInt 0)"
    "list_all (\<lambda>(k, v). v = PNone \<or> query_ok v) plain_params"
    by (simp_all add: plain_params_def)
  have r: "respond (cl_websession fresh_client) (sent (cl_websession fresh_client))
       (last (sent (cl_websession (snd
          (request fresh_client (Some WHISTLE_CONST) ''get'' ''pets'' None None
             (Some plain_params))))))
     = Response 200 ''OK'' JsonType
         (JsonBody (PList [PDict [(''id'', PInt 1), (''name'', PStr ''Rex'')]]))"
    by (simp add: request_sent [OF u] fresh_client_def init_def accepting_session_def)
  note ka = request_keeps_falsy_params [OF u a na, of fresh_client "''get''" None None]
  note kb = request_keeps_falsy_params [OF u b nb, of fresh_client "''get''" None None]
  note kc = request_keeps_falsy_params [OF u c nc, of fresh_client "''get''" None None]
  have da: "(''a'', PStr '''') \<in> set (req_params (last (delivered (cl_websession (snd
       (request fresh_client (Some WHISTLE_CONST) ''get'' ''pets'' None None
          (Some plain_params)))))))"
    using ka q r by blast
  have db: "(''b'', PInt 0) \<in> set (req_params (last (delivered (cl_websession (snd
       (request fresh_client (Some WHISTLE_CONST) ''get'' ''pets'' None None
          (Some plain_params)))))))"
    using kb q r by blast
  have hc: "(''c'', PBool False) \<in> set (req_params (last (sent (cl_websession (snd
       (request fresh_client (Some WHISTLE_CONST) ''get'' ''pets'' None None
          (Some falsy_params)))))))"
    using kc by blast
  have tc: "fst (request fresh_client (Some WHISTLE_CONST) ''get'' ''pets'' None None
          (Some falsy_params)) = Inl TypeError \<and>
     delivered (cl_websession (snd
       (request fresh_client (Some WHISTLE_CONST) ''get'' ''pets'' None None
          (Some falsy_params)))) = delivered (cl_websession fresh_client)"
    using kc by blast
  from u a b c na nb nc q r da db hc tc show ?thesis by blast
qed

section \<open>Response status\<close>

text \<open>
  C2, as the specification states it, fails: the error raised for a 404 response is the
  same whatever the body is, so it does not carry the body; a response with status
  300, which is not 2xx, is not an error: its decoded body is returned; and a response
  with status 200 whose JSON body is served as plain text is not returned: the call
  fails.
\<close>

theorem request_error_lacks_body:
  "fst (request (init ''a@b.com'' ''pw'' not_found_text) (Some WHISTLE_CONST)
          ''get'' ''pets'' None None None)
     = Inl (ClientResponseError 404 ''Not Found'') \<and>
   fst (request (init ''a@b.com'' ''pw'' not_found_json) (Some WHISTLE_CONST)
          ''get'' ''pets'' None None None)
     = Inl (ClientResponseError 404 ''Not Found'') \<and>
   fst (request (init ''a@b.com'' ''pw'' multiple_choices) (Some WHISTLE_CONST)
          ''get'' ''pets'' None None None)
     = Inr (PList [PStr ''a'', PStr ''b'']) \<and>
   fst (request (init ''a@b.com'' ''pw'' mislabelled) (Some WHISTLE_CONST)
          ''get'' ''pets'' None None None)
     = Inl (ContentTypeError 200)"
  by (simp add: request_result [OF url_default] init_def not_found_text_def
      not_found_json_def multiple_choices_def mislabelled_def json_def)

text \<open>
  C2, amended. When the URL can be built, the session can write the parameters and
  the server answers: a status of 400 or above makes the call fail with an error
  holding the status code and the reason phrase; with a status below 400, a JSON
  content type and a JSON document as body, the decoded body is returned.
\<close>

theorem request_status_handling:
  assumes "url config resource = Inr u"
    and "list_all (\<lambda>(k, v). query_ok v) (req_params (last (sent (cl_websession (snd
              (request self config meth resource hdrs data params))))))"
    and "respond (cl_websession self) (sent (cl_websession self))
           (last (sent (cl_websession (snd
              (request self config meth resource hdrs data params)))))
         = Response status reason mt content"
  shows "(400 \<le> status \<longrightarrow>
            fst (request self config meth resource hdrs data params)
              = Inl (ClientResponseError status reason)) \<and>
         (status < 400 \<and> mt = JsonType \<longrightarrow> (\<forall>j. content = JsonBody j \<longrightarrow>
            fst (request self config meth resource hdrs data params) = Inr j))"
  using assms(2,3)
  by (auto simp: request_sent [OF assms(1)] request_result [OF assms(1)] json_def)

theorem request_status_handling_witness:
  "url (Some WHISTLE_CONST) ''pets'' = Inr ''https://app.whistle.com/api/pets'' \<and>
   list_all (\<lambda>(k, v). query_ok v) (req_params (last (sent (cl_websession (snd
       (request (init ''a@b.com'' ''pw'' not_found_text)
           (Some WHISTLE_CONST) ''get'' ''pets'' None None None)))))) \<and>
   respond (cl_websession (init ''a@b.com'' ''pw'' not_found_text))
       (sent (cl_websession (init ''a@b.com'' ''pw'' not_found_text)))
       (last (sent (cl_websession (snd (request (init ''a@b.com'' ''pw'' not_found_text)
           (Some WHISTLE_CONST) ''get'' ''pets'' None None None)))))
     = Response 404 ''Not Found'' (OtherType ''text/plain'') (RawBody ''no such pet'') \<and>
   (400::nat) \<le> 404 \<and>
   fst (request (init ''a@b.com'' ''pw'' not_found_text) (Some WHISTLE_CONST)
          ''get'' ''pets'' None None None)
     = Inl (ClientResponseError 404 ''Not Found'') \<and>
   list_all (\<lambda>(k, v). query_ok v) (req_params (last (sent (cl_websession (snd
       (request fresh_client (Some WHISTLE_CONST) ''get'' ''pets'' None None None)))))) \<and>
   respond (cl_websession fresh_client) (sent (cl_websession fresh_client))
       (last (sent (cl_websession (snd (request fresh_client
           (Some WHISTLE_CONST) ''get'' ''pets'' None None None)))))
     = Response 200 ''OK'' JsonType
         (JsonBody (PList [PDict [(''id'', PInt 1), (''name'', PStr ''Rex'')]])) \<and>
   (200::nat) < 400 \<and>
   fst (request fresh_client (Some WHISTLE_CONST) ''get'' ''pets'' None None None)
     = Inr (PList [PDict [(''id'', PInt 1), (''name'', PStr ''Rex'')]])"
proof -
  have u: "url (Some WHISTLE_CONST) ''pets'' = Inr ''https://app.whistle.com/api/pets''"
    by (simp add: url_default)
  have q1: "list_all (\<lambda>(k, v). query_ok v) (req_params (last (sent (cl_websession (snd
       (request (init ''a@b.com'' ''pw'' not_found_text)
           (Some WHISTLE_CONST) ''get'' ''pets'' None None None))))))"
    by (simp add: request_sent [OF u])
  have q2: "list_all (\<lambda>(k, v). query_ok v) (req_params (last (sent (cl_websession (snd
       (request fresh_client (Some WHISTLE_CONST) ''get'' ''pets'' None None None))))))"
    by (simp add: request_sent [OF u])
  have r1: "respond (cl_websession (init ''a@b.com'' ''pw'' not_found_text))
       (sent (cl_websession (init ''a@b.com'' ''pw'' not_found_text)))
       (last (sent (cl_websession (snd (request (init ''a@b.com'' ''pw'' not_found_text)
           (Some WHISTLE_CONST) ''get'' ''pets'' None None None)))))
     = Response 404 ''Not Found'' (OtherType ''text/plain'') (RawBody ''no such pet'')"
    by (simp add: init_def not_found_text_def)
  have r2: "respond (cl_websession fresh_client) (sent (cl_websession fresh_client))
       (last (sent (cl_websession (snd (request fresh_client
           (Some WHISTLE_CONST) ''get'' ''pets'' None None None)))))
     = Response 200 ''OK'' JsonType
         (JsonBody (PList [PDict [(''id'', PInt 1), (''name'', PStr ''Rex'')]]))"
    by (simp add: request_sent [OF u] fresh_client_def init_def accepting_session_def)
  from request_status_handling [OF u q1 r1] request_status_handling [OF u q2 r2] u q1 q2 r1 r2
  show ?thesis by simp
qed

section \<open>Headers, the resource accessor, login and initialisation\<close>

lemma headers_of_config:
  assumes "map_of cfg ''remote_host'' = Some h"
  shows "headers (Some cfg) token =
     Inr [(''Host'', h),
          (''Content-Type'', ''application/json''),
          (''Connection'', ''keep-alive''),
          (''Accept'', ''application/vnd.whistle.com.v4+json''),
          (''Accept-Language'', ''en-us''),
          (''Accept-Encoding'', ''br, gzip, deflate''),
          (''User-Agent'', ''Winston/2.5.3 (iPhone; iOS 12.0.1; Build:1276; Scale/2.0)''),
          (''Authorization'', ''Bearer '' @ py_str token)]"
  using assms by (simp add: headers_def config_get_def)

lemma headers_none: "headers None token = Inl TypeError"
  by (simp add: headers_def config_get_def)

lemma get_resource_none: "get_resource self None token resource params = (Inl TypeError, self)"
  by (simp add: get_resource_def headers_none)

lemma get_resource_keeps:
  "cl_config (snd (get_resource self config token resource params)) = cl_config self"
  "cl_token (snd (get_resource self config token resource params)) = cl_token self"
  "cl_username (snd (get_resource self config token resource params)) = cl_username self"
  "cl_password (snd (get_resource self config token resource params)) = cl_password self"
  by (simp_all add: get_resource_def request_keeps split: sum.splits)

lemma get_resource_sent:
  assumes "map_of cfg ''proto'' = Some p" and "map_of cfg ''remote_host'' = Some h"
    and "map_of cfg ''endpoint'' = Some e"
  shows "sent (cl_websession (snd (get_resource self (Some cfg) token resource params))) =
     sent (cl_websession self) @
       [\<lparr>req_method = ''get'', req_url = p @ ''://'' @ h @ ''/'' @ e @ ''/'' @ resource,
         req_headers =
           [(''Host'', h),
            (''Content-Type'', ''application/json''),
            (''Connection'', ''keep-alive''),
            (''Accept'', ''application/vnd.whistle.com.v4+json''),
            (''Accept-Language'', ''en-us''),
            (''Accept-Encoding'', ''br, gzip, deflate''),
            (''User-Agent'', ''Winston/2.5.3 (iPhone; iOS 12.0.1; Build:1276; Scale/2.0)''),
            (''Authorization'', ''Bearer '' @ py_str token)],
         req_data = None,
         req_params = (case params of None \<Rightarrow> [] | Some ps \<Rightarrow> filter (\<lambda>(k, v). v \<noteq> PNone) ps)\<rparr>]"
  by (simp add: get_resource_def headers_of_config [OF assms(2)]
      request_sent [OF url_of_config [OF assms]])

lemma invoke_get_resource:
  "\<exists>resource params. invoke ev self c = get_resource self (cl_config self) (cl_token self) resource params"
  by (cases c) (auto simp: get_pets_def get_owners_def get_places_def get_stats_def
      get_timeline_def get_dailies_def get_dailies_day_def get_achievements_def)

lemma login_snd:
  "snd (login self config) =
     snd (request self config ''post'' ''login'' None
            (Some [(''email'', cl_username self), (''password'', cl_password self)]) None)"
  by (simp add: login_def split: prod.splits sum.splits)

lemma login_sent:
  assumes "url config ''login'' = Inr u"
  shows "sent (cl_websession (snd (login self config))) =
     sent (cl_websession self) @
       [\<lparr>req_method = ''post'', req_url = u, req_headers = [],
         req_data = Some [(''email'', cl_username self), (''password'', cl_password self)],
         req_params = []\<rparr>]"
  by (simp add: login_snd request_sent [OF assms])


lemma login_keeps:
  "cl_config (snd (login self config)) = cl_config self"
  "cl_token (snd (login self config)) = cl_token self"
  "cl_username (snd (login self config)) = cl_username self"
  "cl_password (snd (login self config)) = cl_password self"
  by (simp_all add: login_snd request_keeps)

lemma async_init_cached:
  "cl_token self \<noteq> PNone \<Longrightarrow> async_init self wc = (Inr (), self\<lparr>cl_config := wc\<rparr>)"
  by (simp add: async_init_def)

lemma async_init_fresh:
  "cl_token self = PNone \<Longrightarrow>
   async_init self wc =
     (case login (self\<lparr>cl_config := wc\<rparr>) wc of
        (Inl e, self2) \<Rightarrow> (Inl e, self2)
      | (Inr t, self2) \<Rightarrow> (Inr (), self2\<lparr>cl_token := t\<rparr>))"
  by (simp add: async_init_def)

lemma async_init_config: "cl_config (snd (async_init self wc)) = wc"
proof (cases "cl_token self = PNone")
  case True
  obtain r self2 where l: "login (self\<lparr>cl_config := wc\<rparr>) wc = (r, self2)"
    by (cases "login (self\<lparr>cl_config := wc\<rparr>) wc")
  have "cl_config (snd (login (self\<lparr>cl_config := wc\<rparr>) wc)) = wc"
    by (simp add: login_keeps)
  then have "cl_config self2 = wc" by (simp add: l)
  then show ?thesis
    by (cases r) (simp_all add: async_init_fresh [OF True] l)
next
  case False
  then show ?thesis by (simp add: async_init_cached)
qed

lemma ready_client_fields:
  "cl_config ready_client = Some WHISTLE_CONST"
  "cl_token ready_client = PStr ''tok123''"
  "cl_username ready_client = ''a@b.com''"
  "cl_password ready_client = ''pw''"
  "respond (cl_websession ready_client) = respond accepting_session"
  "sent (cl_websession ready_client) =
     [\<lparr>req_method = ''post'', req_url = ''https://app.whistle.com/api/login'', req_headers = [],
       req_data = Some [(''email'', ''a@b.com''), (''password'', ''pw'')], req_params = []\<rparr>]"
  by (simp_all add: ready_client_def fresh_client_def init_def async_init_def login_def
      request_def url_default accepting_session_def Let_def json_def)

lemma invoke_token: "cl_token (snd (invoke ev self c)) = cl_token self"
proof -
  obtain resource params where
    "invoke ev self c = get_resource self (cl_config self) (cl_token self) resource params"
    using invoke_get_resource by blast
  then show ?thesis by (simp add: get_resource_keeps)
qed

lemma invoke_none:
  assumes "cl_config self = None"
  shows "invoke ev self c = (Inl TypeError, self)"
proof -
  obtain resource params where
    "invoke ev self c = get_resource self (cl_config self) (cl_token self) resource params"
    using invoke_get_resource by blast
  then show ?thesis by (simp add: assms get_resource_none)
qed

lemma invoke_sent:
  assumes "cl_config self = Some cfg"
    and "map_of cfg ''proto'' = Some p" and "map_of cfg ''remote_host'' = Some h"
    and "map_of cfg ''endpoint'' = Some e"
  shows "\<exists>resource params.
     sent (cl_websession (snd (invoke ev self c))) =
     sent (cl_websession self) @
       [\<lparr>req_method = ''get'', req_url = p @ ''://'' @ h @ ''/'' @ e @ ''/'' @ resource,
         req_headers =
           [(''Host'', h),
            (''Content-Type'', ''application/json''),
            (''Connection'', ''keep-alive''),
            (''Accept'', ''application/vnd.whistle.com.v4+json''),
            (''Accept-Language'', ''en-us''),
            (''Accept-Encoding'', ''br, gzip, deflate''),
            (''User-Agent'', ''Winston/2.5.3 (iPhone; iOS 12.0.1; Build:1276; Scale/2.0)''),
            (''Authorization'', ''Bearer '' @ py_str (cl_token self))],
         req_data = None,
         req_params = params\<rparr>]"
proof -
  obtain resource params where
    "invoke ev self c = get_resource self (cl_config self) (cl_token self) resource params"
    using invoke_get_resource by blast
  then show ?thesis
    by (simp add: assms(1) get_resource_sent [OF assms(2-4)])
qed

lemma async_init_sent_fresh:
  assumes "cl_token self = PNone" and "url wc ''login'' = Inr u"
  shows "sent (cl_websession (snd (async_init self wc))) =
     sent (cl_websession self) @
       [\<lparr>req_method = ''post'', req_url = u, req_headers = [],
         req_data = Some [(''email'', cl_username self), (''password'', cl_password self)],
         req_params = []\<rparr>]"
proof -
  obtain r self2 where l: "login (self\<lparr>cl_config := wc\<rparr>) wc = (r, self2)"
    by (cases "login (self\<lparr>cl_config := wc\<rparr>) wc")
  have "sent (cl_websession (snd (login (self\<lparr>cl_config := wc\<rparr>) wc))) =
     sent (cl_websession self) @
       [\<lparr>req_method = ''post'', req_url = u, req_headers = [],
         req_data = Some [(''email'', cl_username self), (''password'', cl_password self)],
         req_params = []\<rparr>]"
    by (simp add: login_sent [OF assms(2)])
  then show ?thesis
    by (cases r) (simp_all add: async_init_fresh [OF assms(1)] l)
qed

lemma stranded_client_fields:
  "cl_config stranded_client = Some WHISTLE_CONST"
  "cl_token stranded_client = PNone"
  "respond (cl_websession stranded_client) = respond rejecting_session"
  "sent (cl_websession stranded_client) =
     [\<lparr>req_method = ''post'', req_url = ''https://app.whistle.com/api/login'', req_headers = [],
       req_data = Some [(''email'', ''a@b.com''), (''password'', ''pw'')], req_params = []\<rparr>]"
  by (simp_all add: stranded_client_def refused_client_def init_def async_init_def login_def
      request_def url_default rejecting_session_def Let_def json_def)

lemma refused_client_fields:
  "cl_config refused_client = None"
  "cl_token refused_client = PNone"
  "sent (cl_websession refused_client) = []"
  by (simp_all add: refused_client_def init_def rejecting_session_def)

lemma fresh_client_fields:
  "cl_config fresh_client = None"
  "cl_token fresh_client = PNone"
  "cl_username fresh_client = ''a@b.com''"
  "cl_password fresh_client = ''pw''"
  "sent (cl_websession fresh_client) = []"
  by (simp_all add: fresh_client_def init_def accepting_session_def)

lemma default_config_keys:
  "map_of WHISTLE_CONST ''proto'' = Some ''https''"
  "map_of WHISTLE_CONST ''remote_host'' = Some ''app.whistle.com''"
  "map_of WHISTLE_CONST ''endpoint'' = Some ''api''"
  by (simp_all add: WHISTLE_CONST_def)

section \<open>The header set\<close>

text \<open>
  C8. With a configuration holding scheme, host and path, the resource accessor hands
  the session a request with exactly the eight fixed headers, the host taken from the
  configuration and the token written after \<open>Bearer\<close>; so does each of the eight
  resource methods, with the client's own configuration and token; the login request
  has no header at all.
\<close>

theorem authenticated_header_set:
  assumes "map_of cfg ''proto'' = Some p" and "map_of cfg ''remote_host'' = Some h"
    and "map_of cfg ''endpoint'' = Some e"
  shows "req_headers (last (sent (cl_websession (snd
            (get_resource self (Some cfg) token resource params))))) =
           [(''Host'', h),
            (''Content-Type'', ''application/json''),
            (''Connection'', ''keep-alive''),
            (''Accept'', ''application/vnd.whistle.com.v4+json''),
            (''Accept-Language'', ''en-us''),
            (''Accept-Encoding'', ''br, gzip, deflate''),
            (''User-Agent'', ''Winston/2.5.3 (iPhone; iOS 12.0.1; Build:1276; Scale/2.0)''),
            (''Authorization'', ''Bearer '' @ py_str token)] \<and>
         (cl_config self = Some cfg \<longrightarrow>
            (\<forall>c. req_headers (last (sent (cl_websession (snd (invoke ev self c))))) =
               [(''Host'', h),
                (''Content-Type'', ''application/json''),
                (''Connection'', ''keep-alive''),
                (''Accept'', ''application/vnd.whistle.com.v4+json''),
                (''Accept-Language'', ''en-us''),
                (''Accept-Encoding'', ''br, gzip, deflate''),
                (''User-Agent'', ''Winston/2.5.3 (iPhone; iOS 12.0.1; Build:1276; Scale/2.0)''),
                (''Authorization'', ''Bearer '' @ py_str (cl_token self))])) \<and>
         req_headers (last (sent (cl_websession (snd (login self (Some cfg)))))) = []"
proof (intro conjI impI allI)
  show "req_headers (last (sent (cl_websession (snd
            (get_resource self (Some cfg) token resource params))))) =
           [(''Host'', h),
            (''Content-Type'', ''application/json''),
            (''Connection'', ''keep-alive''),
            (''Accept'', ''application/vnd.whistle.com.v4+json''),
            (''Accept-Language'', ''en-us''),
            (''Accept-Encoding'', ''br, gzip, deflate''),
            (''User-Agent'', ''Winston/2.5.3 (iPhone; iOS 12.0.1; Build:1276; Scale/2.0)''),
            (''Authorization'', ''Bearer '' @ py_str token)]"
    by (simp add: get_resource_sent [OF assms])
next
  fix c
  assume cfg: "cl_config self = Some cfg"
  obtain resource params where
    "invoke ev self c = get_resource self (cl_config self) (cl_token self) resource params"
    using invoke_get_resource by blast
  then show "req_headers (last (sent (cl_websession (snd (invoke ev self c))))) =
               [(''Host'', h),
                (''Content-Type'', ''application/json''),
                (''Connection'', ''keep-alive''),
                (''Accept'', ''application/vnd.whistle.com.v4+json''),
                (''Accept-Language'', ''en-us''),
                (''Accept-Encoding'', ''br, gzip, deflate''),
                (''User-Agent'', ''Winston/2.5.3 (iPhone; iOS 12.0.1; Build:1276; Scale/2.0)''),
                (''Authorization'', ''Bearer '' @ py_str (cl_token self))]"
    by (simp add: cfg get_resource_sent [OF assms])
next
  show "req_headers (last (sent (cl_websession (snd (login self (Some cfg)))))) = []"
    by (simp add: login_sent [OF url_of_config [OF assms]])
qed

theorem authenticated_header_set_witness:
  "map_of WHISTLE_CONST ''proto'' = Some ''https'' \<and>
   map_of WHISTLE_CONST ''remote_host'' = Some ''app.whistle.com'' \<and>
   map_of WHISTLE_CONST ''endpoint'' = Some ''api'' \<and>
   cl_config ready_client = Some WHISTLE_CONST \<and>
   req_headers (last (sent (cl_websession (snd
       (get_resource ready_client (Some WHISTLE_CONST) (PStr ''tok123'') ''pets'' None))))) =
     [(''Host'', ''app.whistle.com''),
      (''Content-Type'', ''application/json''),
      (''Connection'', ''keep-alive''),
      (''Accept'', ''application/vnd.whistle.com.v4+json''),
      (''Accept-Language'', ''en-us''),
      (''Accept-Encoding'', ''br, gzip, deflate''),
      (''User-Agent'', ''Winston/2.5.3 (iPhone; iOS 12.0.1; Build:1276; Scale/2.0)''),
      (''Authorization'', ''Bearer tok123'')] \<and>
   req_headers (last (sent (cl_websession (snd (invoke west_env ready_client (GetStats (PInt 7))))))) =
     [(''Host'', ''app.whistle.com''),
      (''Content-Type'', ''application/json''),
      (''Connection'', ''keep-alive''),
      (''Accept'', ''application/vnd.whistle.com.v4+json''),
      (''Accept-Language'', ''en-us''),
      (''Accept-Encoding'', ''br, gzip, deflate''),
      (''User-Agent'', ''Winston/2.5.3 (iPhone; iOS 12.0.1; Build:1276; Scale/2.0)''),
      (''Authorization'', ''Bearer tok123'')] \<and>
   req_headers (last (sent (cl_websession (snd (login ready_client (Some WHISTLE_CONST)))))) = []"
proof -
  have h1: "map_of WHISTLE_CONST ''proto'' = Some ''https''"
    and h2: "map_of WHISTLE_CONST ''remote_host'' = Some ''app.whistle.com''"
    and h3: "map_of WHISTLE_CONST ''endpoint'' = Some ''api''"
    by (simp_all add: WHISTLE_CONST_def)
  note hs = authenticated_header_set [OF h1 h2 h3, of ready_client "PStr ''tok123''" "''pets''" None west_env]
  from hs h1 h2 h3 show ?thesis
    by (simp add: ready_client_fields(1,2) del: invoke.simps)
qed

section \<open>Login\<close>



section \<open>The cached token\<close>

text \<open>
  C6. When the token is set, \<open>async_init\<close> returns at once: it stores the
  configuration, sends nothing and leaves the token as it is. No resource method
  changes the token, and with a configuration holding scheme, host and path each of
  them sends the token in its \<open>Authorization\<close> header. When no token is set,
  \<open>async_init\<close> sends the login request.
\<close>

theorem cached_token_is_reused:
  "(cl_token self \<noteq> PNone \<longrightarrow> async_init self wc = (Inr (), self\<lparr>cl_config := wc\<rparr>)) \<and>
   (\<forall>c. cl_token (snd (invoke ev self c)) = cl_token self) \<and>
   (\<forall>cfg p h e c.
      cl_config self = Some cfg \<and> map_of cfg ''proto'' = Some p \<and>
      map_of cfg ''remote_host'' = Some h \<and> map_of cfg ''endpoint'' = Some e
      \<longrightarrow> (''Authorization'', ''Bearer '' @ py_str (cl_token self))
            \<in> set (req_headers (last (sent (cl_websession (snd (invoke ev self c))))))) \<and>
   (\<forall>cfg p h e.
      cl_token self = PNone \<and> map_of cfg ''proto'' = Some p \<and>
      map_of cfg ''remote_host'' = Some h \<and> map_of cfg ''endpoint'' = Some e
      \<longrightarrow> sent (cl_websession (snd (async_init self (Some cfg)))) =
            sent (cl_websession self) @
              [\<lparr>req_method = ''post'', req_url = p @ ''://'' @ h @ ''/'' @ e @ ''/login'',
                req_headers = [],
                req_data = Some [(''email'', cl_username self), (''password'', cl_password self)],
                req_params = []\<rparr>])"
proof (intro conjI allI impI)
  assume "cl_token self \<noteq> PNone"
  then show "async_init self wc = (Inr (), self\<lparr>cl_config := wc\<rparr>)"
    by (rule async_init_cached)
next
  fix c
  show "cl_token (snd (invoke ev self c)) = cl_token self"
    by (rule invoke_token)
next
  fix cfg :: strdict and p h e :: string and c :: call
  assume a: "cl_config self = Some cfg \<and> map_of cfg ''proto'' = Some p \<and>
      map_of cfg ''remote_host'' = Some h \<and> map_of cfg ''endpoint'' = Some e"
  then obtain resource params where
    "sent (cl_websession (snd (invoke ev self c))) =
     sent (cl_websession self) @
       [\<lparr>req_method = ''get'', req_url = p @ ''://'' @ h @ ''/'' @ e @ ''/'' @ resource,
         req_headers =
           [(''Host'', h),
            (''Content-Type'', ''application/json''),
            (''Connection'', ''keep-alive''),
            (''Accept'', ''application/vnd.whistle.com.v4+json''),
            (''Accept-Language'', ''en-us''),
            (''Accept-Encoding'', ''br, gzip, deflate''),
            (''User-Agent'', ''Winston/2.5.3 (iPhone; iOS 12.0.1; Build:1276; Scale/2.0)''),
            (''Authorization'', ''Bearer '' @ py_str (cl_token self))],
         req_data = None,
         req_params = params\<rparr>]"
    using invoke_sent [of self cfg p h e ev c] by blast
  then show "(''Authorization'', ''Bearer '' @ py_str (cl_token self))
            \<in> set (req_headers (last (sent (cl_websession (snd (invoke ev self c))))))"
    by simp
next
  fix cfg :: strdict and p h e :: string
  assume a: "cl_token self = PNone \<and> map_of cfg ''proto'' = Some p \<and>
      map_of cfg ''remote_host'' = Some h \<and> map_of cfg ''endpoint'' = Some e"
  then have u: "url (Some cfg) ''login'' = Inr (p @ ''://'' @ h @ ''/'' @ e @ ''/login'')"
    using url_of_config [of cfg p h e "''login''"] by simp
  from a show "sent (cl_websession (snd (async_init self (Some cfg)))) =
            sent (cl_websession self) @
              [\<lparr>req_method = ''post'', req_url = p @ ''://'' @ h @ ''/'' @ e @ ''/login'',
                req_headers = [],
                req_data = Some [(''email'', cl_username self), (''password'', cl_password self)],
                req_params = []\<rparr>]"
    by (simp add: async_init_sent_fresh [OF _ u])
qed

theorem cached_token_is_reused_witness:
  "cl_token ready_client \<noteq> PNone \<and>
   async_init ready_client (Some WHISTLE_CONST)
     = (Inr (), ready_client\<lparr>cl_config := Some WHISTLE_CONST\<rparr>) \<and>
   cl_token (snd (invoke west_env ready_client GetPets)) = PStr ''tok123'' \<and>
   cl_config ready_client = Some WHISTLE_CONST \<and>
   map_of WHISTLE_CONST ''proto'' = Some ''https'' \<and>
   map_of WHISTLE_CONST ''remote_host'' = Some ''app.whistle.com'' \<and>
   map_of WHISTLE_CONST ''endpoint'' = Some ''api'' \<and>
   (''Authorization'', ''Bearer tok123'')
     \<in> set (req_headers (last (sent (cl_websession (snd (invoke west_env ready_client GetPets)))))) \<and>
   cl_token fresh_client = PNone \<and>
   sent (cl_websession (snd (async_init fresh_client (Some WHISTLE_CONST)))) =
     [\<lparr>req_method = ''post'', req_url = ''https://app.whistle.com/api/login'',
       req_headers = [],
       req_data = Some [(''email'', ''a@b.com''), (''password'', ''pw'')],
       req_params = []\<rparr>]"
proof -
  note ready = cached_token_is_reused [of ready_client "Some WHISTLE_CONST" west_env]
  note fresh = cached_token_is_reused [of fresh_client "Some WHISTLE_CONST" west_env]
  have n: "cl_token ready_client \<noteq> PNone" by (simp add: ready_client_fields)
  have a: "async_init ready_client (Some WHISTLE_CONST)
     = (Inr (), ready_client\<lparr>cl_config := Some WHISTLE_CONST\<rparr>)"
    using ready n by blast
  have b: "cl_token (snd (invoke west_env ready_client GetPets)) = PStr ''tok123''"
    using ready ready_client_fields(2) by metis
  have c: "(''Authorization'', ''Bearer '' @ py_str (cl_token ready_client))
     \<in> set (req_headers (last (sent (cl_websession (snd (invoke west_env ready_client GetPets))))))"
    using ready ready_client_fields(1) default_config_keys by blast
  have d: "sent (cl_websession (snd (async_init fresh_client (Some WHISTLE_CONST)))) =
     sent (cl_websession fresh_client) @
     [\<lparr>req_method = ''post'', req_url = ''https'' @ ''://'' @ ''app.whistle.com'' @ ''/'' @ ''api'' @ ''/login'',
       req_headers = [],
       req_data = Some [(''email'', cl_username fresh_client), (''password'', cl_password fresh_client)],
       req_params = []\<rparr>]"
    using fresh fresh_client_fields(2) default_config_keys by blast
  from n a b c d show ?thesis
    by (simp add: ready_client_fields(1,2) fresh_client_fields default_config_keys del: invoke.simps)
qed

section \<open>A failed initialisation\<close>

text \<open>
  C9. \<open>async_init\<close> stores the configuration before it logs in. When it fails, the
  failure is that of the login made with the stored configuration, the client's
  configuration is the supplied one, and the token is still \<^verbatim>\<open>None\<close>.
\<close>

theorem failed_init_keeps_config:
  assumes "fst (async_init self wc) = Inl err"
  shows "cl_config (snd (async_init self wc)) = wc \<and>
         cl_token (snd (async_init self wc)) = PNone \<and>
         cl_token self = PNone \<and>
         fst (login (self\<lparr>cl_config := wc\<rparr>) wc) = Inl err"
proof -
  have t: "cl_token self = PNone"
  proof (rule ccontr)
    assume "cl_token self \<noteq> PNone"
    then have "fst (async_init self wc) = Inr ()" by (simp add: async_init_cached)
    with assms show False by simp
  qed
  obtain r self2 where l: "login (self\<lparr>cl_config := wc\<rparr>) wc = (r, self2)"
    by (cases "login (self\<lparr>cl_config := wc\<rparr>) wc")
  have "cl_token (snd (login (self\<lparr>cl_config := wc\<rparr>) wc)) = PNone"
    by (simp add: login_keeps t)
  then have t2: "cl_token self2 = PNone" by (simp add: l)
  from assms have r: "r = Inl err"
    by (cases r) (simp_all add: async_init_fresh [OF t] l)
  have "cl_token (snd (async_init self wc)) = PNone"
    by (simp add: async_init_fresh [OF t] l r t2)
  moreover have "fst (login (self\<lparr>cl_config := wc\<rparr>) wc) = Inl err"
    by (simp add: l r)
  ultimately show ?thesis
    by (simp add: async_init_config t)
qed

theorem failed_init_keeps_config_witness:
  "fst (async_init refused_client (Some WHISTLE_CONST)) = Inl (ClientResponseError 401 ''Unauthorized'') \<and>
   cl_config (snd (async_init refused_client (Some WHISTLE_CONST))) = Some WHISTLE_CONST \<and>
   cl_token (snd (async_init refused_client (Some WHISTLE_CONST))) = PNone \<and>
   cl_token refused_client = PNone \<and>
   fst (login (refused_client\<lparr>cl_config := Some WHISTLE_CONST\<rparr>) (Some WHISTLE_CONST))
     = Inl (ClientResponseError 401 ''Unauthorized'')"
proof -
  have f: "fst (async_init refused_client (Some WHISTLE_CONST))
             = Inl (ClientResponseError 401 ''Unauthorized'')"
    by (simp add: refused_client_def init_def async_init_def login_def
      request_def url_default rejecting_session_def Let_def json_def)
  from failed_init_keeps_config [OF f] f show ?thesis by simp
qed

section \<open>Calls before a successful initialisation\<close>

lemma get_resource_missing:
  assumes "k \<in> set [''proto'', ''remote_host'', ''endpoint'']" and "map_of cfg k = None"
  shows "\<exists>k'. map_of cfg k' = None \<and>
     get_resource self (Some cfg) token resource params = (Inl (KeyError k'), self)"
proof (cases "map_of cfg ''remote_host''")
  case None
  then have "get_resource self (Some cfg) token resource params
      = (Inl (KeyError ''remote_host''), self)"
    by (simp add: get_resource_def headers_def config_get_def)
  with None show ?thesis by blast
next
  case (Some h)
  note host = this
  show ?thesis
  proof (cases "map_of cfg ''proto''")
    case None
    then have "url (Some cfg) resource = Inl (KeyError ''proto'')"
      by (simp add: url_def config_get_def)
    then have "get_resource self (Some cfg) token resource params
        = (Inl (KeyError ''proto''), self)"
      by (simp add: get_resource_def headers_of_config [OF host] request_url_error)
    with None show ?thesis by blast
  next
    case (Some p)
    with host assms have e: "map_of cfg ''endpoint'' = None" by auto
    with host Some have "url (Some cfg) resource = Inl (KeyError ''endpoint'')"
      by (simp add: url_def config_get_def)
    then have "get_resource self (Some cfg) token resource params
        = (Inl (KeyError ''endpoint''), self)"
      by (simp add: get_resource_def headers_of_config [OF host] request_url_error)
    with e show ?thesis by blast
  qed
qed

lemma invoke_missing:
  assumes "cl_config self = Some cfg"
    and "k \<in> set [''proto'', ''remote_host'', ''endpoint'']" and "map_of cfg k = None"
  shows "\<exists>k'. map_of cfg k' = None \<and> invoke ev self c = (Inl (KeyError k'), self)"
proof -
  obtain resource params where
    "invoke ev self c = get_resource self (cl_config self) (cl_token self) resource params"
    using invoke_get_resource by blast
  then show ?thesis
    using get_resource_missing [OF assms(2,3), of self "cl_token self" resource params]
    by (simp add: assms(1))
qed

lemma format_date_ok: "format_date d = PNone \<or> query_ok (format_date d)"
  by (cases d) (simp_all add: format_date_def)

lemma invoke_params_ok:
  "\<exists>resource params.
     invoke ev self c = get_resource self (cl_config self) (cl_token self) resource params \<and>
     list_all (\<lambda>(k, v). query_ok v)
       (case params of None \<Rightarrow> [] | Some p \<Rightarrow> filter (\<lambda>(k, v). v \<noteq> PNone) p)"
proof (cases c)
  case (GetDailies pet_id s e)
  have "\<exists>s1 e1. get_dailies ev self pet_id s e =
      get_resource self (cl_config self) (cl_token self)
        (''pets/'' @ py_str pet_id @ ''/dailies'')
        (Some [(''start_date'', format_date s1), (''end_date'', format_date e1)])"
    by (cases s; cases e; simp add: get_dailies_def; blast)
  then obtain s1 e1 where "invoke ev self c =
      get_resource self (cl_config self) (cl_token self)
        (''pets/'' @ py_str pet_id @ ''/dailies'')
        (Some [(''start_date'', format_date s1), (''end_date'', format_date e1)])"
    using GetDailies by auto
  moreover have "list_all (\<lambda>(k, v). query_ok v)
      (case Some [(''start_date'', format_date s1), (''end_date'', format_date e1)] of
         None \<Rightarrow> [] | Some p \<Rightarrow> filter (\<lambda>(k, v). v \<noteq> PNone) p)"
    using format_date_ok [of s1] format_date_ok [of e1] by auto
  ultimately show ?thesis by blast
qed (auto simp: get_pets_def get_owners_def get_places_def get_stats_def
      get_timeline_def get_dailies_day_def get_achievements_def
      intro!: exI [of _ None])

lemma invoke_delivered:
  assumes "cl_config self = Some cfg"
    and "map_of cfg ''proto'' = Some p" and "map_of cfg ''remote_host'' = Some h"
    and "map_of cfg ''endpoint'' = Some e"
    and "respond (cl_websession self) (sent (cl_websession self))
           (last (sent (cl_websession (snd (invoke ev self c)))))
         = Response status reason mt content"
  shows "delivered (cl_websession (snd (invoke ev self c))) =
         delivered (cl_websession self) @ [last (sent (cl_websession (snd (invoke ev self c))))]"
proof -
  obtain resource params where i:
    "invoke ev self c = get_resource self (cl_config self) (cl_token self) resource params"
    and ok: "list_all (\<lambda>(k, v). query_ok v)
       (case params of None \<Rightarrow> [] | Some p \<Rightarrow> filter (\<lambda>(k, v). v \<noteq> PNone) p)"
    using invoke_params_ok by blast
  note u = url_of_config [OF assms(2-4), of resource]
  have g: "get_resource self (Some cfg) (cl_token self) resource params =
     request self (Some cfg) ''get'' resource
       (Some [(''Host'', h),
            (''Content-Type'', ''application/json''),
            (''Connection'', ''keep-alive''),
            (''Accept'', ''application/vnd.whistle.com.v4+json''),
            (''Accept-Language'', ''en-us''),
            (''Accept-Encoding'', ''br, gzip, deflate''),
            (''User-Agent'', ''Winston/2.5.3 (iPhone; iOS 12.0.1; Build:1276; Scale/2.0)''),
            (''Authorization'', ''Bearer '' @ py_str (cl_token self))]) None params"
    by (simp add: get_resource_def headers_of_config [OF assms(3)])
  from assms(5) show ?thesis
    by (simp add: i assms(1) g request_sent [OF u] request_delivered [OF u] ok)
qed

lemma partial_client_fields:
  "cl_config partial_client = Some [(''proto'', ''https'')]"
  "cl_token partial_client = PNone"
  by (simp_all add: partial_client_def refused_client_def init_def async_init_def login_def
      request_def url_def config_get_def Let_def)

text \<open>
  C1, as the specification states it, fails. On a client that was never initialised
  \<open>get_pets\<close> fails with a plain \<^verbatim>\<open>TypeError\<close>, the error of subscripting
  \<^verbatim>\<open>None\<close>, not with an error of its own. On a client whose initialisation failed
  at login, \<open>get_pets\<close> does not fail at all: it sends its request, with the token
  \<^verbatim>\<open>None\<close> written into the header, and returns what the server answers.
\<close>

theorem uninitialised_call_not_guarded:
  "fst (get_pets refused_client) = Inl TypeError \<and>
   fst (async_init refused_client (Some WHISTLE_CONST))
     = Inl (ClientResponseError 401 ''Unauthorized'') \<and>
   fst (get_pets stranded_client) = Inr (PList []) \<and>
   last (sent (cl_websession (snd (get_pets stranded_client)))) =
     \<lparr>req_method = ''get'', req_url = ''https://app.whistle.com/api/pets'',
      req_headers =
        [(''Host'', ''app.whistle.com''),
         (''Content-Type'', ''application/json''),
         (''Connection'', ''keep-alive''),
         (''Accept'', ''application/vnd.whistle.com.v4+json''),
         (''Accept-Language'', ''en-us''),
         (''Accept-Encoding'', ''br, gzip, deflate''),
         (''User-Agent'', ''Winston/2.5.3 (iPhone; iOS 12.0.1; Build:1276; Scale/2.0)''),
         (''Authorization'', ''Bearer None'')],
      req_data = None, req_params = []\<rparr>"
proof -
  have a: "fst (get_pets refused_client) = Inl TypeError"
    by (simp add: get_pets_def refused_client_fields get_resource_none)
  have b: "fst (async_init refused_client (Some WHISTLE_CONST))
     = Inl (ClientResponseError 401 ''Unauthorized'')"
    by (simp add: refused_client_def init_def async_init_def login_def
      request_def url_default rejecting_session_def Let_def json_def)
  have h: "headers (Some WHISTLE_CONST) PNone =
     Inr [(''Host'', ''app.whistle.com''),
         (''Content-Type'', ''application/json''),
         (''Connection'', ''keep-alive''),
         (''Accept'', ''application/vnd.whistle.com.v4+json''),
         (''Accept-Language'', ''en-us''),
         (''Accept-Encoding'', ''br, gzip, deflate''),
         (''User-Agent'', ''Winston/2.5.3 (iPhone; iOS 12.0.1; Build:1276; Scale/2.0)''),
         (''Authorization'', ''Bearer None'')]"
    by (simp add: headers_of_config [OF default_config_keys(2)])
  have c: "fst (get_pets stranded_client) = Inr (PList [])"
    by (simp add: get_pets_def get_resource_def stranded_client_fields h
        request_result [OF url_default] rejecting_session_def json_def)
  have d: "last (sent (cl_websession (snd (get_pets stranded_client)))) =
     \<lparr>req_method = ''get'', req_url = ''https://app.whistle.com/api/pets'',
      req_headers =
        [(''Host'', ''app.whistle.com''),
         (''Content-Type'', ''application/json''),
         (''Connection'', ''keep-alive''),
         (''Accept'', ''application/vnd.whistle.com.v4+json''),
         (''Accept-Language'', ''en-us''),
         (''Accept-Encoding'', ''br, gzip, deflate''),
         (''User-Agent'', ''Winston/2.5.3 (iPhone; iOS 12.0.1; Build:1276; Scale/2.0)''),
         (''Authorization'', ''Bearer None'')],
      req_data = None, req_params = []\<rparr>"
    by (simp add: get_pets_def get_resource_def stranded_client_fields h
        request_sent [OF url_default])
  from a b c d show ?thesis by simp
qed

text \<open>
  C1, amended. A resource method called while the configuration is \<^verbatim>\<open>None\<close>
  fails with a \<^verbatim>\<open>TypeError\<close>, sends nothing and leaves the client as it was. Called
  with a configuration that lacks the scheme, the host or the path, it fails with a
  \<^verbatim>\<open>KeyError\<close> for a key that is missing, sends nothing and leaves the client as
  it was. Called with a configuration holding all three while the token is
  \<^verbatim>\<open>None\<close>, it hands its request to the session, with the header
  \<open>Authorization: Bearer None\<close>, and when the server answers, that request is the
  one delivered.
\<close>

theorem uninitialised_call_behaviour:
  "(cl_config self = None \<longrightarrow> (\<forall>c. invoke ev self c = (Inl TypeError, self))) \<and>
   (\<forall>cfg k c.
      cl_config self = Some cfg \<and> k \<in> set [''proto'', ''remote_host'', ''endpoint''] \<and>
      map_of cfg k = None
      \<longrightarrow> (\<exists>k'. map_of cfg k' = None \<and> invoke ev self c = (Inl (KeyError k'), self))) \<and>
   (\<forall>cfg p h e c.
      cl_config self = Some cfg \<and> map_of cfg ''proto'' = Some p \<and>
      map_of cfg ''remote_host'' = Some h \<and> map_of cfg ''endpoint'' = Some e \<and>
      cl_token self = PNone
      \<longrightarrow> length (sent (cl_websession (snd (invoke ev self c))))
             = Suc (length (sent (cl_websession self))) \<and>
          (''Authorization'', ''Bearer None'')
            \<in> set (req_headers (last (sent (cl_websession (snd (invoke ev self c)))))) \<and>
          ((\<exists>status reason mt content.
              respond (cl_websession self) (sent (cl_websession self))
                (last (sent (cl_websession (snd (invoke ev self c)))))
              = Response status reason mt content)
           \<longrightarrow> delivered (cl_websession (snd (invoke ev self c))) =
                 delivered (cl_websession self) @
                   [last (sent (cl_websession (snd (invoke ev self c))))]))"
proof (intro conjI allI impI)
  fix c
  assume "cl_config self = None"
  then show "invoke ev self c = (Inl TypeError, self)" by (rule invoke_none)
next
  fix cfg :: strdict and k :: string and c :: call
  assume "cl_config self = Some cfg \<and> k \<in> set [''proto'', ''remote_host'', ''endpoint''] \<and>
      map_of cfg k = None"
  then show "\<exists>k'. map_of cfg k' = None \<and> invoke ev self c = (Inl (KeyError k'), self)"
    using invoke_missing [of self cfg k ev c] by blast
next
  fix cfg :: strdict and p h e :: string and c :: call
  assume a: "cl_config self = Some cfg \<and> map_of cfg ''proto'' = Some p \<and>
      map_of cfg ''remote_host'' = Some h \<and> map_of cfg ''endpoint'' = Some e \<and>
      cl_token self = PNone"
  then obtain resource params where s:
    "sent (cl_websession (snd (invoke ev self c))) =
     sent (cl_websession self) @
       [\<lparr>req_method = ''get'', req_url = p @ ''://'' @ h @ ''/'' @ e @ ''/'' @ resource,
         req_headers =
           [(''Host'', h),
            (''Content-Type'', ''application/json''),
            (''Connection'', ''keep-alive''),
            (''Accept'', ''application/vnd.whistle.com.v4+json''),
            (''Accept-Language'', ''en-us''),
            (''Accept-Encoding'', ''br, gzip, deflate''),
            (''User-Agent'', ''Winston/2.5.3 (iPhone; iOS 12.0.1; Build:1276; Scale/2.0)''),
            (''Authorization'', ''Bearer '' @ py_str (cl_token self))],
         req_data = None,
         req_params = params\<rparr>]"
    using invoke_sent [of self cfg p h e ev c] by blast
  from a have "py_str (cl_token self) = ''None''" by simp
  with s show "length (sent (cl_websession (snd (invoke ev self c))))
             = Suc (length (sent (cl_websession self)))"
    and "(''Authorization'', ''Bearer None'')
            \<in> set (req_headers (last (sent (cl_websession (snd (invoke ev self c))))))"
    by simp_all
  assume "\<exists>status reason mt content.
              respond (cl_websession self) (sent (cl_websession self))
                (last (sent (cl_websession (snd (invoke ev self c)))))
              = Response status reason mt content"
  then obtain status reason mt content where
    "respond (cl_websession self) (sent (cl_websession self))
       (last (sent (cl_websession (snd (invoke ev self c)))))
     = Response status reason mt content"
    by blast
  with a show "delivered (cl_websession (snd (invoke ev self c))) =
                 delivered (cl_websession self) @
                   [last (sent (cl_websession (snd (invoke ev self c))))]"
    using invoke_delivered [of self cfg p h e ev c status reason mt content] by blast
qed

theorem uninitialised_call_behaviour_witness:
  "cl_config refused_client = None \<and>
   invoke west_env refused_client (GetOwners (PInt 7)) = (Inl TypeError, refused_client) \<and>
   cl_config partial_client = Some [(''proto'', ''https'')] \<and>
   ''remote_host'' \<in> set [''proto'', ''remote_host'', ''endpoint''] \<and>
   map_of [(''proto'', ''https'')] ''remote_host'' = None \<and>
   (\<exists>k'. map_of [(''proto'', ''https'')] k' = None \<and>
      invoke west_env partial_client GetPets = (Inl (KeyError k'), partial_client)) \<and>
   cl_config stranded_client = Some WHISTLE_CONST \<and>
   map_of WHISTLE_CONST ''proto'' = Some ''https'' \<and>
   map_of WHISTLE_CONST ''remote_host'' = Some ''app.whistle.com'' \<and>
   map_of WHISTLE_CONST ''endpoint'' = Some ''api'' \<and>
   cl_token stranded_client = PNone \<and>
   length (sent (cl_websession (snd (invoke west_env stranded_client GetPlaces))))
     = Suc (length (sent (cl_websession stranded_client))) \<and>
   (''Authorization'', ''Bearer None'')
     \<in> set (req_headers (last (sent (cl_websession (snd
           (invoke west_env stranded_client GetPlaces)))))) \<and>
   respond (cl_websession stranded_client) (sent (cl_websession stranded_client))
       (last (sent (cl_websession (snd (invoke west_env stranded_client GetPlaces)))))
     = Response 200 ''OK'' JsonType (JsonBody (PList [])) \<and>
   delivered (cl_websession (snd (invoke west_env stranded_client GetPlaces))) =
     delivered (cl_websession stranded_client) @
       [last (sent (cl_websession (snd (invoke west_env stranded_client GetPlaces))))]"
proof -
  note unset = uninitialised_call_behaviour [of refused_client west_env]
  note partial = uninitialised_call_behaviour [of partial_client west_env]
  note stranded = uninitialised_call_behaviour [of stranded_client west_env]
  have a: "invoke west_env refused_client (GetOwners (PInt 7)) = (Inl TypeError, refused_client)"
    using unset refused_client_fields(1) by blast
  have m: "''remote_host'' \<in> set [''proto'', ''remote_host'', ''endpoint'']"
    "map_of [(''proto'', ''https'')] ''remote_host'' = None"
    by simp_all
  have k: "\<exists>k'. map_of [(''proto'', ''https'')] k' = None \<and>
      invoke west_env partial_client GetPets = (Inl (KeyError k'), partial_client)"
    using partial partial_client_fields(1) m by blast
  have r: "respond (cl_websession stranded_client) (sent (cl_websession stranded_client))
       (last (sent (cl_websession (snd (invoke west_env stranded_client GetPlaces)))))
     = Response 200 ''OK'' JsonType (JsonBody (PList []))"
    by (simp add: stranded_client_fields rejecting_session_def get_places_def
        get_resource_sent [OF default_config_keys])
  have b: "length (sent (cl_websession (snd (invoke west_env stranded_client GetPlaces))))
       = Suc (length (sent (cl_websession stranded_client))) \<and>
     (''Authorization'', ''Bearer None'')
       \<in> set (req_headers (last (sent (cl_websession (snd
             (invoke west_env stranded_client GetPlaces)))))) \<and>
     delivered (cl_websession (snd (invoke west_env stranded_client GetPlaces))) =
       delivered (cl_websession stranded_client) @
         [last (sent (cl_websession (snd (invoke west_env stranded_client GetPlaces))))]"
    using stranded stranded_client_fields(1,2) default_config_keys r by blast
  from a m k r b show ?thesis
    using refused_client_fields(1) partial_client_fields(1) stranded_client_fields(1,2)
      default_config_keys
    by blast
qed

section \<open>Dates of the daily summaries\<close>

lemma civil_epoch: "civil_from_days 0 = (1970, 1, 1)"
  by code_simp

lemma civil_eve: "civil_from_days (- 1) = (1969, 12, 31)"
  by code_simp

lemma strftime_ymd:
  "strftime dt DATEFORMAT_YYYYMMDD =
     str_int (dt_year dt) @ ''-'' @ zfill 2 (str_int (dt_month dt)) @ ''-'' @
     zfill 2 (str_int (dt_day dt))"
  by (simp add: DATEFORMAT_YYYYMMDD_def directive_def)

lemma str_int_samples:
  "str_int 1970 = ''1970''" "str_int 1969 = ''1969''" "str_int 2020 = ''2020''"
  "str_int 1 = ''1''" "str_int 2 = ''2''" "str_int 12 = ''12''" "str_int 31 = ''31''"
  by code_simp+

lemma epoch_date_east:
  assumes "0 \<le> utcoffset ev 0" and "utcoffset ev 0 < 86400"
  shows "strftime (fromtimestamp ev 0) DATEFORMAT_YYYYMMDD = ''1970-01-01''"
proof -
  have "utcoffset ev 0 div 86400 = 0" using assms by simp
  then have "dt_year (fromtimestamp ev 0) = 1970" "dt_month (fromtimestamp ev 0) = 1"
    "dt_day (fromtimestamp ev 0) = 1"
    by (simp_all add: fromtimestamp_def Let_def civil_epoch)
  then show ?thesis
    by (simp add: strftime_ymd zfill_def str_int_samples)
qed

lemma epoch_date_west:
  assumes "- 86400 \<le> utcoffset ev 0" and "utcoffset ev 0 < 0"
  shows "strftime (fromtimestamp ev 0) DATEFORMAT_YYYYMMDD = ''1969-12-31''"
proof -
  have "utcoffset ev 0 div 86400 = - 1"
  proof -
    have "0 \<le> utcoffset ev 0 + 86400" "utcoffset ev 0 + 86400 < 86400" using assms by simp_all
    then have "(utcoffset ev 0 + 86400) div 86400 = 0" by simp
    then show ?thesis by simp
  qed
  then have "dt_year (fromtimestamp ev 0) = 1969" "dt_month (fromtimestamp ev 0) = 12"
    "dt_day (fromtimestamp ev 0) = 31"
    by (simp_all add: fromtimestamp_def Let_def civil_eve)
  then show ?thesis
    by (simp add: strftime_ymd zfill_def str_int_samples)
qed

lemma get_dailies_params:
  assumes "cl_config self = Some cfg"
    and "map_of cfg ''proto'' = Some p" and "map_of cfg ''remote_host'' = Some h"
    and "map_of cfg ''endpoint'' = Some e"
  shows "req_params (last (sent (cl_websession (snd (get_dailies ev self pet_id s e'))))) =
     (case (s, e') of
        (None, None) \<Rightarrow> []
      | (Some a, None) \<Rightarrow>
          [(''start_date'', PStr (strftime a DATEFORMAT_YYYYMMDD)),
           (''end_date'', PStr (strftime (now ev) DATEFORMAT_YYYYMMDD))]
      | (None, Some b) \<Rightarrow>
          [(''start_date'', PStr (strftime (fromtimestamp ev 0) DATEFORMAT_YYYYMMDD)),
           (''end_date'', PStr (strftime b DATEFORMAT_YYYYMMDD))]
      | (Some a, Some b) \<Rightarrow>
          [(''start_date'', PStr (strftime a DATEFORMAT_YYYYMMDD)),
           (''end_date'', PStr (strftime b DATEFORMAT_YYYYMMDD))])"
  by (simp add: get_dailies_def assms(1) get_resource_sent [OF assms(2-4)] format_date_def
      split: option.splits)

text \<open>
  C3. With only a start date given the end date sent is that of the local clock, a
  date that is given is sent as year, month and day with hyphens between them and a
  date that is absent is left out (\<open>get_dailies_params\<close>). With only an end date given, the start date sent is
  the local date of the instant 0, which is 1 January 1970 east of Greenwich
  (\<open>epoch_date_east\<close>) and 31 December 1969 west of it (\<open>epoch_date_west\<close>): on
  a machine five hours west, asking for the summaries up to 2 January 2020 sends the
  start date 1969-12-31, where the claim and the method's own documentation say
  1970-01-01.
\<close>

theorem dailies_epoch_is_local:
  "req_params (last (sent (cl_websession (snd
      (get_dailies west_env ready_client (PInt 7) None (Some second_of_january)))))) =
     [(''start_date'', PStr ''1969-12-31''), (''end_date'', PStr ''2020-01-02'')]"
proof -
  have w: "strftime (fromtimestamp west_env 0) DATEFORMAT_YYYYMMDD = ''1969-12-31''"
    by (rule epoch_date_west) (simp_all add: west_env_def)
  have d: "strftime second_of_january DATEFORMAT_YYYYMMDD = ''2020-01-02''"
    by (simp add: strftime_ymd second_of_january_def zfill_def str_int_samples)
  show ?thesis
    by (simp add: get_dailies_params [OF ready_client_fields(1) default_config_keys] w d)
qed

end
